theory Spec2Isabelle
  imports Main
begin

section \<open>Python values and exceptions raised\<close>

text \<open>
  The module \<^verbatim>\<open>pynamodb/exceptions.py\<close> is dynamically typed: a cause, a response and
  the verbose properties may be any object. The values that matter to it are \<^verbatim>\<open>None\<close>,
  booleans, integers, strings, dictionaries (an association list holding the items, the
  keys distinct) and plain objects. A plain object is given by the text that \<^verbatim>\<open>str()\<close>
  yields for it and by its data attributes; it is truthy, and it has no methods.
\<close>

datatype pyval =
    PyNone
  | PyBool bool
  | PyInt int
  | PyStr string
  | PyDict "(pyval \<times> pyval) list"
  | PyObj string "(string \<times> pyval) list"

text \<open>
  The exceptions that the modelled code can raise on the way. \<^verbatim>\<open>TypeError\<close> and
  \<^verbatim>\<open>ValueError\<close> are also classes of the table below, hence the suffix of the two names
  here. \<open>Unsupported\<close> is no Python exception: it marks a format string outside the part of
  \<^verbatim>\<open>str.format\<close> that is modelled.
\<close>

datatype py_error =
    AttributeError
  | TypeError_raised
  | ValueError_raised
  | KeyError
  | IndexError
  | Unsupported


text \<open>
  \<^verbatim>\<open>getattr(v, name, default)\<close> for a data attribute name that no builtin type defines
  (\<^verbatim>\<open>response\<close> here): only a plain object can have it.
\<close>

fun py_hasattr :: "pyval \<Rightarrow> string \<Rightarrow> bool" where
  "py_hasattr (PyObj t as) name = (map_of as name \<noteq> None)"
| "py_hasattr v name = False"

fun py_getattr :: "pyval \<Rightarrow> string \<Rightarrow> pyval \<Rightarrow> pyval" where
  "py_getattr (PyObj t as) name dflt =
     (case map_of as name of Some v \<Rightarrow> v | None \<Rightarrow> dflt)"
| "py_getattr v name dflt = dflt"

text \<open>
  The method call \<^verbatim>\<open>v.get(key, default)\<close>. A dictionary answers it; the module asks for
  string keys only, and a string key equals no key of another type. \<^verbatim>\<open>None\<close>, booleans,
  integers and strings have no attribute \<^verbatim>\<open>get\<close>: AttributeError. A plain object has no
  methods: AttributeError when it has no attribute \<^verbatim>\<open>get\<close>, TypeError when it has one,
  since that attribute is data and cannot be called.
\<close>

fun py_get :: "pyval \<Rightarrow> pyval \<Rightarrow> pyval \<Rightarrow> py_error + pyval" where
  "py_get (PyDict kvs) key dflt =
     Inr (case map_of kvs key of Some v \<Rightarrow> v | None \<Rightarrow> dflt)"
| "py_get (PyObj t as) key dflt =
     (case map_of as ''get'' of None \<Rightarrow> Inl AttributeError | Some g \<Rightarrow> Inl TypeError_raised)"
| "py_get v key dflt = Inl AttributeError"

section \<open>The class table\<close>

text \<open>
  The classes of the module and the builtin and botocore classes they derive from.
\<close>

datatype py_class =
    PyObject
  | BaseException
  | Exception
  | TypeError
  | ValueError
  | ClientError
  | PynamoDBException
  | PynamoDBConnectionError
  | DeleteError
  | QueryError
  | ScanError
  | PutError
  | UpdateError
  | GetError
  | TableError
  | DoesNotExist
  | TableDoesNotExist
  | TransactWriteError
  | TransactGetError
  | InvalidStateError
  | AttributeDeserializationError
  | AttributeNullError
  | VerboseClientError

text \<open>The base named in each class statement (every class here has one base).\<close>

fun base_of :: "py_class \<Rightarrow> py_class option" where
  "base_of PyObject = None"
| "base_of BaseException = Some PyObject"
| "base_of Exception = Some BaseException"
| "base_of TypeError = Some Exception"
| "base_of ValueError = Some Exception"
| "base_of ClientError = Some Exception"
| "base_of PynamoDBException = Some Exception"
| "base_of PynamoDBConnectionError = Some PynamoDBException"
| "base_of DeleteError = Some PynamoDBConnectionError"
| "base_of QueryError = Some PynamoDBConnectionError"
| "base_of ScanError = Some PynamoDBConnectionError"
| "base_of PutError = Some PynamoDBConnectionError"
| "base_of UpdateError = Some PynamoDBConnectionError"
| "base_of GetError = Some PynamoDBConnectionError"
| "base_of TableError = Some PynamoDBConnectionError"
| "base_of DoesNotExist = Some PynamoDBException"
| "base_of TableDoesNotExist = Some PynamoDBException"
| "base_of TransactWriteError = Some PynamoDBException"
| "base_of TransactGetError = Some PynamoDBException"
| "base_of InvalidStateError = Some PynamoDBException"
| "base_of AttributeDeserializationError = Some TypeError"
| "base_of AttributeNullError = Some ValueError"
| "base_of VerboseClientError = Some ClientError"

text \<open>The distance of a class from \<^verbatim>\<open>object\<close>; it decreases along \<open>base_of\<close>.\<close>

fun class_rank :: "py_class \<Rightarrow> nat" where
  "class_rank PyObject = 0"
| "class_rank BaseException = 1"
| "class_rank Exception = 2"
| "class_rank TypeError = 3"
| "class_rank ValueError = 3"
| "class_rank ClientError = 3"
| "class_rank PynamoDBException = 3"
| "class_rank PynamoDBConnectionError = 4"
| "class_rank DeleteError = 5"
| "class_rank QueryError = 5"
| "class_rank ScanError = 5"
| "class_rank PutError = 5"
| "class_rank UpdateError = 5"
| "class_rank GetError = 5"
| "class_rank TableError = 5"
| "class_rank DoesNotExist = 4"
| "class_rank TableDoesNotExist = 4"
| "class_rank TransactWriteError = 4"
| "class_rank TransactGetError = 4"
| "class_rank InvalidStateError = 4"
| "class_rank AttributeDeserializationError = 4"
| "class_rank AttributeNullError = 4"
| "class_rank VerboseClientError = 4"

text \<open>The method resolution order: the class, then the order of its base.\<close>

function mro :: "py_class \<Rightarrow> py_class list" where
  "mro c = c # (case base_of c of None \<Rightarrow> [] | Some b \<Rightarrow> mro b)"
  by pat_completeness auto
termination
proof (relation "measure class_rank")
  show "wf (measure class_rank)" by simp
next
  fix c b
  assume "base_of c = Some b"
  then show "(b, c) \<in> measure class_rank"
    by (cases c) auto
qed

text \<open>\<^verbatim>\<open>issubclass\<close>; an \<^verbatim>\<open>except D\<close> clause catches an exception of class \<open>c\<close> exactly
  when \<open>issubclass c D\<close>.\<close>

definition issubclass :: "py_class \<Rightarrow> py_class \<Rightarrow> bool" where
  "issubclass c d = (d \<in> set (mro c))"

text \<open>
  The data attributes that the class bodies of the module assign: the default messages.
  \<^verbatim>\<open>PynamoDBException\<close> only annotates \<^verbatim>\<open>msg: str\<close>, which creates no attribute. The
  builtin and botocore classes define none of the names the module reads from \<^verbatim>\<open>self\<close>
  (\<^verbatim>\<open>msg\<close>, \<^verbatim>\<open>cause\<close>, \<^verbatim>\<open>attr_path\<close>).
\<close>

fun class_data :: "py_class \<Rightarrow> (string \<times> pyval) list" where
  "class_data PynamoDBConnectionError = [(''msg'', PyStr ''Connection Error'')]"
| "class_data DeleteError = [(''msg'', PyStr ''Error deleting item'')]"
| "class_data QueryError = [(''msg'', PyStr ''Error performing query'')]"
| "class_data ScanError = [(''msg'', PyStr ''Error performing scan'')]"
| "class_data PutError = [(''msg'', PyStr ''Error putting item'')]"
| "class_data UpdateError = [(''msg'', PyStr ''Error updating item'')]"
| "class_data GetError = [(''msg'', PyStr ''Error getting item'')]"
| "class_data TableError = [(''msg'', PyStr ''Error performing a table operation'')]"
| "class_data DoesNotExist = [(''msg'', PyStr ''Item does not exist'')]"
| "class_data InvalidStateError = [(''msg'', PyStr ''Operation in invalid state'')]"
| "class_data c = []"

text \<open>The methods and properties that the class bodies of the module define.\<close>

fun class_defs :: "py_class \<Rightarrow> string list" where
  "class_defs PynamoDBException =
     [''__init__'', ''cause_response_code'', ''cause_response_message'']"
| "class_defs TableDoesNotExist = [''__init__'']"
| "class_defs AttributeDeserializationError = [''__init__'']"
| "class_defs AttributeNullError = [''__init__'', ''__str__'', ''prepend_path'']"
| "class_defs VerboseClientError = [''__init__'']"
| "class_defs c = []"

text \<open>Looking a name up along a list of classes: the first class that has it wins.\<close>

fun lookup_data :: "py_class list \<Rightarrow> string \<Rightarrow> pyval option" where
  "lookup_data [] name = None"
| "lookup_data (c # cs) name =
     (case map_of (class_data c) name of Some v \<Rightarrow> Some v | None \<Rightarrow> lookup_data cs name)"

fun defining_class :: "py_class list \<Rightarrow> string \<Rightarrow> py_class option" where
  "defining_class [] name = None"
| "defining_class (c # cs) name =
     (if name \<in> set (class_defs c) then Some c else defining_class cs name)"

section \<open>Exception instances\<close>

text \<open>
  An instance has its class, its own attributes (the instance dictionary) and the
  \<^verbatim>\<open>args\<close> tuple that \<^verbatim>\<open>BaseException\<close> keeps.
\<close>

record py_instance =
  cls :: py_class
  attrs :: "string \<rightharpoonup> pyval"
  args :: "pyval list"

text \<open>
  \<^verbatim>\<open>BaseException.__new__\<close>: a fresh instance with no attribute of its own; \<^verbatim>\<open>args\<close>
  holds the positional arguments of the call until an \<^verbatim>\<open>__init__\<close> replaces them.
\<close>

definition new :: "py_class \<Rightarrow> pyval list \<Rightarrow> py_instance" where
  "new c posargs = \<lparr>cls = c, attrs = Map.empty, args = posargs\<rparr>"

text \<open>
  Reading a data attribute \<^verbatim>\<open>self.name\<close>: the instance dictionary first, then the
  classes in method resolution order; AttributeError when nobody has it.
\<close>

definition self_getattr :: "py_instance \<Rightarrow> string \<Rightarrow> py_error + pyval" where
  "self_getattr self name =
     (case attrs self name of
        Some v \<Rightarrow> Inr v
      | None \<Rightarrow>
          (case lookup_data (mro (cls self)) name of
             Some v \<Rightarrow> Inr v
           | None \<Rightarrow> Inl AttributeError))"

definition self_setattr :: "py_instance \<Rightarrow> string \<Rightarrow> pyval \<Rightarrow> py_instance" where
  "self_setattr self name v = self\<lparr>attrs := (attrs self)(name \<mapsto> v)\<rparr>"

text \<open>\<^verbatim>\<open>BaseException.__init__(self, *a)\<close> stores its arguments as \<^verbatim>\<open>self.args\<close>.\<close>

definition BaseException_init :: "py_instance \<Rightarrow> pyval list \<Rightarrow> py_instance" where
  "BaseException_init self a = self\<lparr>args := a\<rparr>"

section \<open>PynamoDBException\<close>

text \<open>
  \<^verbatim>\<open>
  def __init__(self, msg=None, cause=None):
      self.msg = msg if msg is not None else self.msg
      self.cause = cause
      super(PynamoDBException, self).__init__(self.msg)
  \<close>
\<close>

definition PynamoDBException_init ::
  "py_instance \<Rightarrow> pyval \<Rightarrow> pyval \<Rightarrow> py_error + py_instance" where
  "PynamoDBException_init self msg cause =
     (case (if msg \<noteq> PyNone then Inr msg else self_getattr self ''msg'') of
        Inl e \<Rightarrow> Inl e
      | Inr m \<Rightarrow>
          (let self1 = self_setattr self ''msg'' m;
               self2 = self_setattr self1 ''cause'' cause
           in case self_getattr self2 ''msg'' of
                Inl e \<Rightarrow> Inl e
              | Inr m' \<Rightarrow> Inr (BaseException_init self2 [m'])))"

text \<open>
  \<^verbatim>\<open>
  @property
  def cause_response_code(self):
      return getattr(self.cause, 'response', {}).get('Error', {}).get('Code')
  \<close>
\<close>

definition cause_response_code :: "py_instance \<Rightarrow> py_error + pyval" where
  "cause_response_code self =
     (case self_getattr self ''cause'' of
        Inl e \<Rightarrow> Inl e
      | Inr c \<Rightarrow>
          (case py_get (py_getattr c ''response'' (PyDict [])) (PyStr ''Error'') (PyDict []) of
             Inl e \<Rightarrow> Inl e
           | Inr err \<Rightarrow> py_get err (PyStr ''Code'') PyNone))"

text \<open>
  \<^verbatim>\<open>
  @property
  def cause_response_message(self):
      return getattr(self.cause, 'response', {}).get('Error', {}).get('Message')
  \<close>
\<close>

definition cause_response_message :: "py_instance \<Rightarrow> py_error + pyval" where
  "cause_response_message self =
     (case self_getattr self ''cause'' of
        Inl e \<Rightarrow> Inl e
      | Inr c \<Rightarrow>
          (case py_get (py_getattr c ''response'' (PyDict [])) (PyStr ''Error'') (PyDict []) of
             Inl e \<Rightarrow> Inl e
           | Inr err \<Rightarrow> py_get err (PyStr ''Message'') PyNone))"

section \<open>Text: \<^verbatim>\<open>str()\<close> and \<^verbatim>\<open>str.format\<close>\<close>

text \<open>Decimal digits of a natural number and of an integer, as \<^verbatim>\<open>str(int)\<close> prints them.\<close>

fun show_nat :: "nat \<Rightarrow> string" where
  "show_nat n =
     (if n < 10 then [char_of (48 + n)]
      else show_nat (n div 10) @ [char_of (48 + n mod 10)])"

definition show_int :: "int \<Rightarrow> string" where
  "show_int i = (if i < 0 then CHR ''-'' # show_nat (nat (- i)) else show_nat (nat i))"

text \<open>
  \<^verbatim>\<open>str(v)\<close>. The text of a dictionary is built by the interpreter from the \<^verbatim>\<open>repr\<close> of its
  items; it is taken as the parameter \<open>repr_dict\<close>.
\<close>

fun py_str :: "((pyval \<times> pyval) list \<Rightarrow> string) \<Rightarrow> pyval \<Rightarrow> string" where
  "py_str repr_dict PyNone = ''None''"
| "py_str repr_dict (PyBool b) = (if b then ''True'' else ''False'')"
| "py_str repr_dict (PyInt i) = show_int i"
| "py_str repr_dict (PyStr s) = s"
| "py_str repr_dict (PyDict kvs) = repr_dict kvs"
| "py_str repr_dict (PyObj t as) = t"

text \<open>
  The part of \<^verbatim>\<open>str.format\<close> that the module uses: literal text, the doubled braces
  \<^verbatim>\<open>{{\<close> and \<^verbatim>\<open>}}\<close>, the automatically numbered field \<^verbatim>\<open>{}\<close> and the keyword field
  \<^verbatim>\<open>{name}\<close>, each replaced by the text of its argument (\<^verbatim>\<open>str\<close> of it, as there is no
  format specification). The arguments are passed as these texts. The text put in is not
  scanned again. A field with an index, an attribute, a conversion or a format
  specification is outside this part and gives \<open>Unsupported\<close>.
\<close>

definition ident_char :: "char \<Rightarrow> bool" where
  "ident_char c =
     (c \<in> set ''abcdefghijklmnopqrstuvwxyzABCDEFGHIJKLMNOPQRSTUVWXYZ_0123456789'')"

definition is_identifier :: "string \<Rightarrow> bool" where
  "is_identifier name =
     (case name of
        [] \<Rightarrow> False
      | c # cs \<Rightarrow> c \<notin> set ''0123456789'' \<and> list_all ident_char name)"

definition emit :: "string \<Rightarrow> py_error + string \<Rightarrow> py_error + string" where
  "emit s r = (case r of Inl e \<Rightarrow> Inl e | Inr t \<Rightarrow> Inr (s @ t))"

text \<open>
  The scanner: \<open>pos\<close> and \<open>kw\<close> are the positional and keyword arguments, \<open>n\<close> the next
  automatic index, \<open>fld\<close> is \<open>None\<close> in literal text and \<open>Some name\<close> inside a field whose
  name read so far is \<open>name\<close>.
\<close>

fun py_format_scan ::
  "string list \<Rightarrow> (string \<times> string) list \<Rightarrow> nat \<Rightarrow> string option \<Rightarrow> string
     \<Rightarrow> py_error + string" where
  "py_format_scan pos kw n None [] = Inr []"
| "py_format_scan pos kw n None (c # cs) =
     (if c = CHR ''{'' then
        (case cs of
           [] \<Rightarrow> Inl ValueError_raised
         | d # ds \<Rightarrow>
             if d = CHR ''{'' then emit ''{'' (py_format_scan pos kw n None ds)
             else py_format_scan pos kw n (Some []) cs)
      else if c = CHR ''}'' then
        (case cs of
           [] \<Rightarrow> Inl ValueError_raised
         | d # ds \<Rightarrow>
             if d = CHR ''}'' then emit ''}'' (py_format_scan pos kw n None ds)
             else Inl ValueError_raised)
      else emit [c] (py_format_scan pos kw n None cs))"
| "py_format_scan pos kw n (Some name) [] = Inl ValueError_raised"
| "py_format_scan pos kw n (Some name) (c # cs) =
     (if c = CHR ''}'' then
        (if name = [] then
           (if n < length pos then emit (pos ! n) (py_format_scan pos kw (Suc n) None cs)
            else Inl IndexError)
         else if is_identifier name then
           (case map_of kw name of
              None \<Rightarrow> Inl KeyError
            | Some v \<Rightarrow> emit v (py_format_scan pos kw n None cs))
         else Inl Unsupported)
      else if c = CHR ''{'' then Inl ValueError_raised
      else py_format_scan pos kw n (Some (name @ [c])) cs)"

definition py_format ::
  "string \<Rightarrow> string list \<Rightarrow> (string \<times> string) list \<Rightarrow> py_error + string" where
  "py_format template pos kw = py_format_scan pos kw 0 None template"

section \<open>The other exception classes\<close>

text \<open>
  \<^verbatim>\<open>
  class TableDoesNotExist(PynamoDBException):
      def __init__(self, table_name: str) -> None:
          msg = "Table does not exist: `{}`".format(table_name)
          super(TableDoesNotExist, self).__init__(msg)
  \<close>
\<close>

definition TableDoesNotExist_init :: "py_instance \<Rightarrow> string \<Rightarrow> py_error + py_instance" where
  "TableDoesNotExist_init self table_name =
     (case py_format ''Table does not exist: `{}`'' [table_name] [] of
        Inl e \<Rightarrow> Inl e
      | Inr msg \<Rightarrow> PynamoDBException_init self (PyStr msg) PyNone)"

text \<open>
  \<^verbatim>\<open>
  class AttributeDeserializationError(TypeError):
      def __init__(self, attr_name: str, attr_type: str):
          msg = "Cannot deserialize '{}' attribute from type: {}".format(attr_name, attr_type)
          super(AttributeDeserializationError, self).__init__(msg)
  \<close>
  \<^verbatim>\<open>TypeError\<close> inherits its \<^verbatim>\<open>__init__\<close> from \<^verbatim>\<open>BaseException\<close>.
\<close>

definition AttributeDeserializationError_init ::
  "py_instance \<Rightarrow> string \<Rightarrow> string \<Rightarrow> py_error + py_instance" where
  "AttributeDeserializationError_init self attr_name attr_type =
     (case py_format ''Cannot deserialize '{}' attribute from type: {}''
             [attr_name, attr_type] [] of
        Inl e \<Rightarrow> Inl e
      | Inr msg \<Rightarrow> Inr (BaseException_init self [PyStr msg]))"

text \<open>
  \<^verbatim>\<open>
  class AttributeNullError(ValueError):
      def __init__(self, attr_name: str) -> None:
          self.attr_path = attr_name

      def __str__(self):
          return f"Attribute '{self.attr_path}' cannot be None"

      def prepend_path(self, attr_name: str) -> None:
          self.attr_path = attr_name + '.' + self.attr_path
  \<close>
  The \<^verbatim>\<open>__init__\<close> does not call the one of its base. In \<^verbatim>\<open>prepend_path\<close> the left
  operand \<^verbatim>\<open>attr_name + '.'\<close> is a string, so the sum raises TypeError unless
  \<^verbatim>\<open>self.attr_path\<close> is a string too.
\<close>

definition AttributeNullError_init :: "py_instance \<Rightarrow> string \<Rightarrow> py_instance" where
  "AttributeNullError_init self attr_name = self_setattr self ''attr_path'' (PyStr attr_name)"

definition AttributeNullError_str ::
  "((pyval \<times> pyval) list \<Rightarrow> string) \<Rightarrow> py_instance \<Rightarrow> py_error + string" where
  "AttributeNullError_str repr_dict self =
     (case self_getattr self ''attr_path'' of
        Inl e \<Rightarrow> Inl e
      | Inr p \<Rightarrow>
          Inr (''Attribute '' @ [CHR 0x27] @ py_str repr_dict p @ [CHR 0x27] @ '' cannot be None''))"

definition AttributeNullError_prepend_path ::
  "py_instance \<Rightarrow> string \<Rightarrow> py_error + py_instance" where
  "AttributeNullError_prepend_path self attr_name =
     (case self_getattr self ''attr_path'' of
        Inl e \<Rightarrow> Inl e
      | Inr (PyStr p) \<Rightarrow> Inr (self_setattr self ''attr_path'' (PyStr (attr_name @ ''.'' @ p)))
      | Inr v \<Rightarrow> Inl TypeError_raised)"



section \<open>Notions used to state the properties\<close>


text \<open>A sequence of \<^verbatim>\<open>prepend_path\<close> calls, in the order of the list.\<close>

fun prepend_all :: "py_instance \<Rightarrow> string list \<Rightarrow> py_error + py_instance" where
  "prepend_all self [] = Inr self"
| "prepend_all self (p # ps) =
     (case AttributeNullError_prepend_path self p of
        Inl e \<Rightarrow> Inl e
      | Inr self' \<Rightarrow> prepend_all self' ps)"

text \<open>The names of a path written with dots between them.\<close>

fun dotted :: "string list \<Rightarrow> string" where
  "dotted [] = []"
| "dotted [x] = x"
| "dotted (x # y # zs) = x @ ''.'' @ dotted (y # zs)"

text \<open>
  An example of a cause: a client error of the SDK, whose \<^verbatim>\<open>response\<close> carries the
  code and the message of the service.
\<close>

definition conditional_check_failed :: pyval where
  "conditional_check_failed =
     PyObj ''An error occurred (ConditionalCheckFailedException)''
       [(''response'',
         PyDict [(PyStr ''Error'',
                  PyDict [(PyStr ''Code'', PyStr ''ConditionalCheckFailedException''),
                          (PyStr ''Message'', PyStr ''The conditional request failed'')])])]"




section \<open>Facts about the base constructor\<close>

lemma PynamoDBException_init_Inr:
  "PynamoDBException_init self msg cause = Inr s' \<Longrightarrow>
     \<exists>m. (if msg \<noteq> PyNone then Inr msg else self_getattr self ''msg'') = Inr m \<and>
         s' = self\<lparr>attrs := (attrs self)(''msg'' \<mapsto> m, ''cause'' \<mapsto> cause), args := [m]\<rparr>"
  by (auto simp: PynamoDBException_init_def Let_def self_setattr_def self_getattr_def
        BaseException_init_def split: sum.splits if_splits)

lemma PynamoDBException_init_cause:
  "PynamoDBException_init self msg cause = Inr s' \<Longrightarrow> self_getattr s' ''cause'' = Inr cause"
  by (auto dest!: PynamoDBException_init_Inr simp: self_getattr_def)

lemma PynamoDBException_init_default:
  "lookup_data (mro c) ''msg'' = Some d \<Longrightarrow>
     PynamoDBException_init (new c posargs) PyNone cause =
       Inr \<lparr>cls = c, attrs = [''msg'' \<mapsto> d, ''cause'' \<mapsto> cause], args = [d]\<rparr>"
  by (simp add: PynamoDBException_init_def Let_def self_setattr_def self_getattr_def
        BaseException_init_def new_def)

lemma PynamoDBException_init_explicit:
  "m \<noteq> PyNone \<Longrightarrow>
     PynamoDBException_init (new c posargs) m cause =
       Inr \<lparr>cls = c, attrs = [''msg'' \<mapsto> m, ''cause'' \<mapsto> cause], args = [m]\<rparr>"
  by (simp add: PynamoDBException_init_def Let_def self_setattr_def self_getattr_def
        BaseException_init_def new_def)

lemma PynamoDBException_init_no_default:
  "lookup_data (mro c) ''msg'' = None \<Longrightarrow>
     PynamoDBException_init (new c posargs) PyNone cause = Inl AttributeError"
  by (simp add: PynamoDBException_init_def self_getattr_def new_def)

lemma TableDoesNotExist_init_eq:
  "TableDoesNotExist_init (new TableDoesNotExist posargs) n =
     Inr \<lparr>cls = TableDoesNotExist,
          attrs = [''msg'' \<mapsto> PyStr (''Table does not exist: `'' @ n @ ''`''),
                   ''cause'' \<mapsto> PyNone],
          args = [PyStr (''Table does not exist: `'' @ n @ ''`'')]\<rparr>"
  by (simp add: TableDoesNotExist_init_def py_format_def emit_def
        PynamoDBException_init_explicit)

section \<open>The accessors of the cause\<close>

text \<open>
  C1. On an instance that the base constructor built with the cause \<open>c\<close>, the two
  accessors return \<^verbatim>\<open>None\<close> when \<open>c\<close> is \<^verbatim>\<open>None\<close>, when \<open>c\<close> has no attribute
  \<^verbatim>\<open>response\<close>, when the response dictionary has no key \<^verbatim>\<open>Error\<close>, and when the
  dictionary under \<^verbatim>\<open>Error\<close> has no key \<^verbatim>\<open>Code\<close> (respectively \<^verbatim>\<open>Message\<close>); when the
  nested key is there, they return the value under it, as it is.
\<close>

theorem cause_response_lookup:
  "PynamoDBException_init s0 msg c = Inr self \<Longrightarrow>
     (c = PyNone \<longrightarrow>
        cause_response_code self = Inr PyNone \<and> cause_response_message self = Inr PyNone) \<and>
     (\<not> py_hasattr c ''response'' \<longrightarrow>
        cause_response_code self = Inr PyNone \<and> cause_response_message self = Inr PyNone) \<and>
     (\<forall>t as r. c = PyObj t as \<and> map_of as ''response'' = Some (PyDict r) \<longrightarrow>
        (map_of r (PyStr ''Error'') = None \<longrightarrow>
           cause_response_code self = Inr PyNone \<and> cause_response_message self = Inr PyNone) \<and>
        (\<forall>er. map_of r (PyStr ''Error'') = Some (PyDict er) \<longrightarrow>
           (map_of er (PyStr ''Code'') = None \<longrightarrow> cause_response_code self = Inr PyNone) \<and>
           (map_of er (PyStr ''Message'') = None \<longrightarrow>
              cause_response_message self = Inr PyNone) \<and>
           (\<forall>v. map_of er (PyStr ''Code'') = Some v \<longrightarrow> cause_response_code self = Inr v) \<and>
           (\<forall>v. map_of er (PyStr ''Message'') = Some v \<longrightarrow>
              cause_response_message self = Inr v)))"
proof -
  assume "PynamoDBException_init s0 msg c = Inr self"
  then have c: "self_getattr self ''cause'' = Inr c"
    by (rule PynamoDBException_init_cause)
  show ?thesis
    by (cases c)
       (auto simp: cause_response_code_def cause_response_message_def c split: option.splits)
qed

theorem cause_response_lookup_witness:
  "(case PynamoDBException_init (new PutError []) PyNone conditional_check_failed of
      Inl e \<Rightarrow> False
    | Inr self \<Rightarrow>
        cause_response_code self = Inr (PyStr ''ConditionalCheckFailedException'') \<and>
        cause_response_message self = Inr (PyStr ''The conditional request failed''))"
proof -
  let ?e = "\<lparr>cls = PutError,
             attrs = [''msg'' \<mapsto> PyStr ''Error putting item'',
                      ''cause'' \<mapsto> conditional_check_failed],
             args = [PyStr ''Error putting item'']\<rparr>"
  have h: "PynamoDBException_init (new PutError []) PyNone conditional_check_failed = Inr ?e"
    by (rule PynamoDBException_init_default) simp
  from cause_response_lookup [OF h] show ?thesis
    unfolding h by (simp add: conditional_check_failed_def)
qed




section \<open>Default messages\<close>

text \<open>
  C5. A class that has a default message (found along its method resolution order) is
  constructed by the base constructor; without a message the instance gets exactly the
  default as \<^verbatim>\<open>msg\<close> and as its only argument, and with a message other than \<^verbatim>\<open>None\<close>
  it gets that message instead.
\<close>

theorem default_message:
  "lookup_data (mro c) ''msg'' = Some d \<Longrightarrow>
     defining_class (mro c) ''__init__'' = Some PynamoDBException \<and>
     PynamoDBException_init (new c posargs) PyNone cause =
       Inr \<lparr>cls = c, attrs = [''msg'' \<mapsto> d, ''cause'' \<mapsto> cause], args = [d]\<rparr> \<and>
     (m \<noteq> PyNone \<longrightarrow>
        PynamoDBException_init (new c posargs) m cause =
          Inr \<lparr>cls = c, attrs = [''msg'' \<mapsto> m, ''cause'' \<mapsto> cause], args = [m]\<rparr>)"
proof (intro conjI impI)
  assume d: "lookup_data (mro c) ''msg'' = Some d"
  then show "defining_class (mro c) ''__init__'' = Some PynamoDBException"
    by (cases c) simp_all
  from d show "PynamoDBException_init (new c posargs) PyNone cause =
       Inr \<lparr>cls = c, attrs = [''msg'' \<mapsto> d, ''cause'' \<mapsto> cause], args = [d]\<rparr>"
    by (rule PynamoDBException_init_default)
next
  assume "m \<noteq> PyNone"
  then show "PynamoDBException_init (new c posargs) m cause =
          Inr \<lparr>cls = c, attrs = [''msg'' \<mapsto> m, ''cause'' \<mapsto> cause], args = [m]\<rparr>"
    by (rule PynamoDBException_init_explicit)
qed

theorem default_message_witness:
  "PynamoDBException_init (new PynamoDBConnectionError []) PyNone PyNone =
     Inr \<lparr>cls = PynamoDBConnectionError,
          attrs = [''msg'' \<mapsto> PyStr ''Connection Error'', ''cause'' \<mapsto> PyNone],
          args = [PyStr ''Connection Error'']\<rparr> \<and>
   PynamoDBException_init (new DoesNotExist []) PyNone PyNone =
     Inr \<lparr>cls = DoesNotExist,
          attrs = [''msg'' \<mapsto> PyStr ''Item does not exist'', ''cause'' \<mapsto> PyNone],
          args = [PyStr ''Item does not exist'']\<rparr> \<and>
   PynamoDBException_init (new InvalidStateError []) PyNone PyNone =
     Inr \<lparr>cls = InvalidStateError,
          attrs = [''msg'' \<mapsto> PyStr ''Operation in invalid state'', ''cause'' \<mapsto> PyNone],
          args = [PyStr ''Operation in invalid state'']\<rparr> \<and>
   PynamoDBException_init (new DoesNotExist [PyStr ''No such user'']) (PyStr ''No such user'') PyNone =
     Inr \<lparr>cls = DoesNotExist,
          attrs = [''msg'' \<mapsto> PyStr ''No such user'', ''cause'' \<mapsto> PyNone],
          args = [PyStr ''No such user'']\<rparr>"
proof -
  have a: "lookup_data (mro PynamoDBConnectionError) ''msg'' = Some (PyStr ''Connection Error'')"
    by simp
  have b: "lookup_data (mro DoesNotExist) ''msg'' = Some (PyStr ''Item does not exist'')"
    by simp
  have c: "lookup_data (mro InvalidStateError) ''msg'' = Some (PyStr ''Operation in invalid state'')"
    by simp
  from default_message [OF a, of "[]" PyNone PyNone]
       default_message [OF b, of "[]" PyNone PyNone]
       default_message [OF c, of "[]" PyNone PyNone]
       default_message [OF b, of "[PyStr ''No such user'']" PyNone "PyStr ''No such user''"]
  show ?thesis by simp
qed

text \<open>
  C6, as amended. A subclass of \<^verbatim>\<open>PynamoDBException\<close> either has a default message, and
  then constructing it without a message succeeds with the default, or it has none:
  \<^verbatim>\<open>TableDoesNotExist\<close> has its own constructor, which builds the message from the table
  name and succeeds; \<^verbatim>\<open>PynamoDBException\<close>, \<^verbatim>\<open>TransactWriteError\<close> and
  \<^verbatim>\<open>TransactGetError\<close> raise AttributeError when constructed without a message and
  succeed with the message they are given.
\<close>

theorem default_or_required:
  "issubclass c PynamoDBException \<Longrightarrow>
     (case lookup_data (mro c) ''msg'' of
        Some d \<Rightarrow>
          defining_class (mro c) ''__init__'' = Some PynamoDBException \<and>
          PynamoDBException_init (new c posargs) PyNone cause =
            Inr \<lparr>cls = c, attrs = [''msg'' \<mapsto> d, ''cause'' \<mapsto> cause], args = [d]\<rparr>
      | None \<Rightarrow>
          (if c = TableDoesNotExist then
             defining_class (mro c) ''__init__'' = Some TableDoesNotExist \<and>
             \<not> isl (TableDoesNotExist_init (new c posargs) n)
           else
             (c = PynamoDBException \<or> c = TransactWriteError \<or> c = TransactGetError) \<and>
             defining_class (mro c) ''__init__'' = Some PynamoDBException \<and>
             PynamoDBException_init (new c posargs) PyNone cause = Inl AttributeError \<and>
             (m \<noteq> PyNone \<longrightarrow>
                PynamoDBException_init (new c posargs) m cause =
                  Inr \<lparr>cls = c, attrs = [''msg'' \<mapsto> m, ''cause'' \<mapsto> cause],
                       args = [m]\<rparr>)))"
proof (cases "lookup_data (mro c) ''msg''")
  case (Some d)
  then have "defining_class (mro c) ''__init__'' = Some PynamoDBException"
    by (cases c) simp_all
  with Some show ?thesis
    by (simp add: PynamoDBException_init_default)
next
  case None
  assume sub: "issubclass c PynamoDBException"
  show ?thesis
  proof (cases "c = TableDoesNotExist")
    case True
    then show ?thesis
      using None by (simp add: TableDoesNotExist_init_eq)
  next
    case False
    from sub None False
    have k: "c = PynamoDBException \<or> c = TransactWriteError \<or> c = TransactGetError"
      by (cases c) (simp_all add: issubclass_def)
    then have "defining_class (mro c) ''__init__'' = Some PynamoDBException"
      by auto
    with None False k show ?thesis
      by (simp add: PynamoDBException_init_no_default PynamoDBException_init_explicit)
  qed
qed

theorem default_or_required_witness:
  "PynamoDBException_init (new TableError []) PyNone PyNone =
     Inr \<lparr>cls = TableError,
          attrs = [''msg'' \<mapsto> PyStr ''Error performing a table operation'',
                   ''cause'' \<mapsto> PyNone],
          args = [PyStr ''Error performing a table operation'']\<rparr> \<and>
   PynamoDBException_init (new TransactGetError []) PyNone PyNone = Inl AttributeError \<and>
   PynamoDBException_init (new TransactGetError [PyStr ''Transaction cancelled''])
       (PyStr ''Transaction cancelled'') PyNone =
     Inr \<lparr>cls = TransactGetError,
          attrs = [''msg'' \<mapsto> PyStr ''Transaction cancelled'', ''cause'' \<mapsto> PyNone],
          args = [PyStr ''Transaction cancelled'']\<rparr>"
proof -
  have a: "issubclass TableError PynamoDBException"
    by (simp add: issubclass_def)
  have b: "issubclass TransactGetError PynamoDBException"
    by (simp add: issubclass_def)
  from default_or_required [OF a, where posargs = "[]" and cause = PyNone]
       default_or_required [OF b, where posargs = "[]" and cause = PyNone]
       default_or_required [OF b, where posargs = "[PyStr ''Transaction cancelled'']"
                                  and cause = PyNone and m = "PyStr ''Transaction cancelled''"]
  show ?thesis by simp
qed

text \<open>
  C6 as stated fails: \<^verbatim>\<open>TransactWriteError()\<close> and \<^verbatim>\<open>TransactGetError()\<close> run the base
  constructor, which finds no \<^verbatim>\<open>msg\<close> to fall back on and raises AttributeError.
\<close>

theorem no_default_counterexample:
  "issubclass TransactWriteError PynamoDBException \<and>
   defining_class (mro TransactWriteError) ''__init__'' = Some PynamoDBException \<and>
   PynamoDBException_init (new TransactWriteError []) PyNone PyNone = Inl AttributeError \<and>
   PynamoDBException_init (new TransactGetError []) PyNone PyNone = Inl AttributeError"
  by (simp add: issubclass_def PynamoDBException_init_no_default)

section \<open>What the base constructor stores\<close>

text \<open>
  C9. When the base constructor succeeds, the attribute \<^verbatim>\<open>cause\<close> holds the argument as
  it was passed, \<^verbatim>\<open>msg\<close> and the argument tuple hold the message, every other
  attribute and the class are as before, and the constructor succeeds for any other
  cause as well: it does not look at the cause.
\<close>

theorem cause_stored_unchanged:
  "PynamoDBException_init self msg cause = Inr self' \<Longrightarrow>
     attrs self' ''cause'' = Some cause \<and>
     (\<exists>m. attrs self' ''msg'' = Some m \<and> args self' = [m]) \<and>
     (\<forall>name. name \<noteq> ''msg'' \<and> name \<noteq> ''cause'' \<longrightarrow> attrs self' name = attrs self name) \<and>
     cls self' = cls self \<and>
     \<not> isl (PynamoDBException_init self msg other)"
proof -
  assume h: "PynamoDBException_init self msg cause = Inr self'"
  from PynamoDBException_init_Inr [OF h] obtain m where
    m: "(if msg \<noteq> PyNone then Inr msg else self_getattr self ''msg'') = Inr m" and
    s: "self' = self\<lparr>attrs := (attrs self)(''msg'' \<mapsto> m, ''cause'' \<mapsto> cause), args := [m]\<rparr>"
    by blast
  from m have "\<not> isl (PynamoDBException_init self msg other)"
    by (auto simp: PynamoDBException_init_def Let_def self_setattr_def self_getattr_def
          BaseException_init_def split: if_splits)
  with s show ?thesis by simp
qed

theorem cause_stored_unchanged_witness:
  "attrs (projr (PynamoDBException_init (new UpdateError []) PyNone conditional_check_failed))
      ''cause'' = Some conditional_check_failed \<and>
   attrs (projr (PynamoDBException_init (new UpdateError []) PyNone conditional_check_failed))
      ''attr_path'' = None \<and>
   \<not> isl (PynamoDBException_init (new UpdateError []) PyNone (PyInt 7))"
proof -
  let ?e = "\<lparr>cls = UpdateError,
             attrs = [''msg'' \<mapsto> PyStr ''Error updating item'',
                      ''cause'' \<mapsto> conditional_check_failed],
             args = [PyStr ''Error updating item'']\<rparr>"
  have h: "PynamoDBException_init (new UpdateError []) PyNone conditional_check_failed = Inr ?e"
    by (rule PynamoDBException_init_default) simp
  from cause_stored_unchanged [OF h, of "PyInt 7"] show ?thesis
    unfolding h by (simp add: new_def)
qed

section \<open>Formatted messages\<close>

text \<open>
  C7. \<^verbatim>\<open>TableDoesNotExist(n)\<close> succeeds; its message is the table name between backticks
  after \<^verbatim>\<open>Table does not exist: \<close>, and the instance has the attributes \<^verbatim>\<open>msg\<close> and
  \<^verbatim>\<open>cause\<close> only: the name is kept nowhere else.
\<close>

theorem table_does_not_exist_message:
  "TableDoesNotExist_init (new TableDoesNotExist posargs) n =
     Inr \<lparr>cls = TableDoesNotExist,
          attrs = [''msg'' \<mapsto> PyStr (''Table does not exist: `'' @ n @ ''`''),
                   ''cause'' \<mapsto> PyNone],
          args = [PyStr (''Table does not exist: `'' @ n @ ''`'')]\<rparr> \<and>
   TableDoesNotExist_init (new TableDoesNotExist [PyStr ''Users'']) ''Users'' =
     Inr \<lparr>cls = TableDoesNotExist,
          attrs = [''msg'' \<mapsto> PyStr ''Table does not exist: `Users`'',
                   ''cause'' \<mapsto> PyNone],
          args = [PyStr ''Table does not exist: `Users`'']\<rparr> \<and>
   defining_class (mro TableDoesNotExist) ''__init__'' = Some TableDoesNotExist"
  by (simp add: TableDoesNotExist_init_eq)

text \<open>
  C8. \<^verbatim>\<open>AttributeDeserializationError(a, t)\<close> succeeds and its only argument is the text
  \<^verbatim>\<open>Cannot deserialize 'a' attribute from type: t\<close>; the class defines nothing but this
  constructor, so no method of it changes the message afterwards.
\<close>

theorem deserialization_error_message:
  "AttributeDeserializationError_init (new AttributeDeserializationError posargs) a t =
     Inr \<lparr>cls = AttributeDeserializationError,
          attrs = Map.empty,
          args = [PyStr (''Cannot deserialize '' @ [CHR 0x27] @ a @ [CHR 0x27]
                           @ '' attribute from type: '' @ t)]\<rparr> \<and>
   AttributeDeserializationError_init
       (new AttributeDeserializationError [PyStr ''age'', PyStr ''S'']) ''age'' ''S'' =
     Inr \<lparr>cls = AttributeDeserializationError,
          attrs = Map.empty,
          args = [PyStr ''Cannot deserialize 'age' attribute from type: S'']\<rparr> \<and>
   class_defs AttributeDeserializationError = [''__init__''] \<and>
   defining_class (mro AttributeDeserializationError) ''__init__''
     = Some AttributeDeserializationError"
  by (simp add: AttributeDeserializationError_init_def py_format_def emit_def
        BaseException_init_def new_def)

section \<open>The verbose message template\<close>









section \<open>AttributeNullError\<close>

lemma dotted_snoc2: "dotted (xs @ [q @ CHR ''.'' # p]) = dotted (xs @ [q, p])"
  by (induction xs rule: dotted.induct) auto

lemma prepend_all_path:
  "attrs self ''attr_path'' = Some (PyStr p) \<Longrightarrow>
     \<exists>self'. prepend_all self ps = Inr self' \<and>
             attrs self' ''attr_path'' = Some (PyStr (dotted (rev ps @ [p])))"
proof (induction ps arbitrary: self p)
  case Nil
  then show ?case by simp
next
  case (Cons q ps)
  let ?s = "self_setattr self ''attr_path'' (PyStr (q @ ''.'' @ p))"
  from Cons.prems have step: "AttributeNullError_prepend_path self q = Inr ?s"
    by (simp add: AttributeNullError_prepend_path_def self_getattr_def)
  have "attrs ?s ''attr_path'' = Some (PyStr (q @ ''.'' @ p))"
    by (simp add: self_setattr_def)
  from Cons.IH [OF this] obtain self' where
    "prepend_all ?s ps = Inr self'"
    "attrs self' ''attr_path'' = Some (PyStr (dotted (rev ps @ [q @ ''.'' @ p])))"
    by blast
  then show ?case
    by (simp add: step dotted_snoc2)
qed

text \<open>
  C4. After the constructor with the name \<open>a\<close> and the calls \<^verbatim>\<open>prepend_path(p)\<close> for the
  names of \<open>ps\<close> in their order, all of which succeed, \<^verbatim>\<open>__str__\<close> gives the text
  \<^verbatim>\<open>Attribute '...' cannot be None\<close> over the path with the last name prepended first and
  \<open>a\<close> last. As \<open>ps\<close> is any list, this is the text after every call; \<^verbatim>\<open>__str__\<close> reads
  the current \<^verbatim>\<open>attr_path\<close>. The example of the specification is the second part.
\<close>

theorem attribute_null_error_str:
  "(\<exists>self'.
      prepend_all (AttributeNullError_init (new AttributeNullError posargs) a) ps = Inr self' \<and>
      AttributeNullError_str repr_dict self' =
        Inr (''Attribute '' @ [CHR 0x27] @ dotted (rev ps @ [a]) @ [CHR 0x27]
               @ '' cannot be None'')) \<and>
   (\<exists>self'.
      prepend_all (AttributeNullError_init (new AttributeNullError [PyStr ''name'']) ''name'')
        [''user'', ''record''] = Inr self' \<and>
      AttributeNullError_str repr_dict self' = Inr ''Attribute 'record.user.name' cannot be None'')"
proof -
  have gen: "\<exists>self'.
      prepend_all (AttributeNullError_init (new AttributeNullError qs) b) rs = Inr self' \<and>
      AttributeNullError_str repr_dict self' =
        Inr (''Attribute '' @ [CHR 0x27] @ dotted (rev rs @ [b]) @ [CHR 0x27]
               @ '' cannot be None'')" for qs b rs
  proof -
    have "attrs (AttributeNullError_init (new AttributeNullError qs) b) ''attr_path''
            = Some (PyStr b)"
      by (simp add: AttributeNullError_init_def self_setattr_def)
    from prepend_all_path [OF this, of rs] obtain self' where
      "prepend_all (AttributeNullError_init (new AttributeNullError qs) b) rs = Inr self'"
      "attrs self' ''attr_path'' = Some (PyStr (dotted (rev rs @ [b])))"
      by blast
    then show ?thesis
      by (simp add: AttributeNullError_str_def self_getattr_def)
  qed
  from gen [of posargs a ps] gen [of "[PyStr ''name'']" "''name''" "[''user'', ''record'']"]
  show ?thesis by simp
qed

section \<open>The two attribute errors and the hierarchy\<close>

text \<open>
  C10. \<^verbatim>\<open>AttributeDeserializationError\<close> derives from \<^verbatim>\<open>TypeError\<close> and
  \<^verbatim>\<open>AttributeNullError\<close> from \<^verbatim>\<open>ValueError\<close>; neither is a subclass of
  \<^verbatim>\<open>PynamoDBException\<close>, so a handler for it catches neither; no class of their method
  resolution orders defines the two accessors, and reading \<^verbatim>\<open>cause\<close> on their instances
  raises AttributeError.
\<close>

theorem attribute_errors_outside_hierarchy:
  "mro AttributeDeserializationError =
     [AttributeDeserializationError, TypeError, Exception, BaseException, PyObject] \<and>
   mro AttributeNullError =
     [AttributeNullError, ValueError, Exception, BaseException, PyObject] \<and>
   \<not> issubclass AttributeDeserializationError PynamoDBException \<and>
   \<not> issubclass AttributeNullError PynamoDBException \<and>
   defining_class (mro AttributeDeserializationError) ''cause_response_code'' = None \<and>
   defining_class (mro AttributeDeserializationError) ''cause_response_message'' = None \<and>
   defining_class (mro AttributeNullError) ''cause_response_code'' = None \<and>
   defining_class (mro AttributeNullError) ''cause_response_message'' = None \<and>
   (\<exists>e. AttributeDeserializationError_init (new AttributeDeserializationError posargs) a t
          = Inr e \<and>
        self_getattr e ''cause'' = Inl AttributeError) \<and>
   self_getattr (AttributeNullError_init (new AttributeNullError posargs) a) ''cause''
     = Inl AttributeError"
  by (simp add: issubclass_def AttributeDeserializationError_init_def py_format_def emit_def
        BaseException_init_def new_def self_getattr_def AttributeNullError_init_def
        self_setattr_def)

end
